theory Spec2Isabelle
  imports Main "HOL-Library.AList"
begin

section \<open>The room relay of server.js\<close>

text \<open>
  The relay keeps two JavaScript \<open>Map\<close>s, \<open>rooms\<close> (room id to a \<open>Map\<close> from socket
  id to profile) and \<open>messageHistory\<close> (room id to an array of message records), and
  three socket handlers, \<open>join\<close>, \<open>chatMessage\<close> and \<open>disconnect\<close>.

  A JavaScript \<open>Map\<close> iterates in insertion order, \<open>set\<close> on a present key keeps the
  key's position and \<open>set\<close> on an absent key appends. \<open>rooms\<close> and the per-room
  participant maps are iterated by the handlers, so they are association lists with
  \<open>AList.update\<close> (replace in place, else append), \<open>AList.delete\<close> and \<open>map_of\<close>.
  \<open>messageHistory\<close> is only looked up by key, so it is a partial function.

  Every handler takes the state and returns the new state with the list of effects it
  performed, in order: the socket.io emissions (\<open>socket.emit\<close> to the handler's own
  socket, \<open>io.to(x).emit\<close> to the socket.io room \<open>x\<close>) and the calls of the two
  gateways. Console output is not part of the trace. Who listens in a socket.io room is
  the transport's business; the trace records the address the code emits to.

  Payload fields are strings, as the client sends them, so the JavaScript test \<open>!x\<close> is
  \<open>x = []\<close>. The reading of the clock, \<open>new Date().toISOString()\<close>, is an argument of
  the handler that reads it.

  A handler runs to completion before the next event is taken. For \<open>join\<close> and
  \<open>disconnect\<close> that is what the event loop does; \<open>chatMessage\<close> awaits the gateways,
  and what other handlers do to the maps during those awaits is not part of this model.
\<close>

subsection \<open>Data\<close>

record user =
  u_username :: string
  u_language :: string
  u_role :: string

text \<open>
  A message record. The join notice has only \<open>username\<close>, \<open>text\<close>, \<open>timestamp\<close> and
  \<open>type\<close>; the other fields are absent there, hence optional.
\<close>

record message =
  m_username :: string
  m_text :: string
  m_originalText :: "string option"
  m_isTranslated :: "bool option"
  m_timestamp :: string
  m_type :: string
  m_role :: "string option"

record state =
  rooms :: "(string \<times> (string \<times> user) list) list"
  messageHistory :: "string \<rightharpoonup> message list"

datatype payload =
    ErrorEv string
  | MessageHistoryEv "message list"
  | MessageEv message
  | SuggestionsEv "string list"

datatype effect =
    SocketEmit string payload
  | IoToEmit string payload
  | AnalyzeCall string
  | TranslateCall string string

definition init :: state where
  "init = \<lparr>rooms = [], messageHistory = Map.empty\<rparr>"

subsection \<open>The gateways\<close>

text \<open>
  \<open>translateText\<close> rejects an empty text or target language, then posts to the
  translation service. The outcome of the request is the argument \<open>axios\<close>: \<open>None\<close>
  when the request fails, times out or answers with an unexpected body.
\<close>

definition translateText ::
  "(string \<Rightarrow> string \<Rightarrow> string option) \<Rightarrow> string \<Rightarrow> string \<Rightarrow> string + string" where
  "translateText axios text targetLanguage =
     (if text = [] \<or> targetLanguage = [] then Inl ''Missing required translation parameters''
      else case axios text targetLanguage of
             None \<Rightarrow> Inl ''Translation service failed''
           | Some t \<Rightarrow> Inr t)"

text \<open>
  \<open>analyzeMessage\<close> rejects an empty text, then reads the knowledge base and asks the
  generative model. The outcome of those two remote calls is the argument \<open>genAI\<close>:
  \<open>Inl\<close> the message of the error raised inside, \<open>Inr\<close> the suggestion lines.
\<close>

definition analyzeMessage ::
  "(string \<Rightarrow> string + string list) \<Rightarrow> string \<Rightarrow> string + string list" where
  "analyzeMessage genAI text =
     (if text = [] then Inl ''Invalid message format''
      else case genAI text of
             Inl e \<Rightarrow> Inl (''Message analysis failed: '' @ e)
           | Inr suggestions \<Rightarrow> Inr suggestions)"

subsection \<open>join\<close>

definition joinMessage :: "string \<Rightarrow> string \<Rightarrow> message" where
  "joinMessage username now =
     \<lparr>m_username = ''System'',
      m_text = username @ '' has joined the chat'',
      m_originalText = None,
      m_isTranslated = None,
      m_timestamp = now,
      m_type = ''system'',
      m_role = None\<rparr>"

definition filteredHistory :: "string \<Rightarrow> message list \<Rightarrow> message list" where
  "filteredHistory role h =
     filter (\<lambda>msg. if role = ''user'' then m_type msg \<noteq> ''system'' \<and> m_type msg \<noteq> ''private''
                    else True) h"

text \<open>
  \<open>rooms.has\<close>/\<open>rooms.set(room, new Map())\<close>/\<open>rooms.get(room).set(id, profile)\<close> is one
  update of the room's entry, the participant map being empty when the room is new.
  The replay is computed before the join notice is pushed. \<open>socket.join(room)\<close>
  subscribes the socket to the socket.io room and leaves the two maps alone. Nothing in
  the \<open>try\<close> block throws on string arguments, so its \<open>catch\<close> has no branch here.
\<close>

definition join ::
  "string \<Rightarrow> string \<Rightarrow> string \<Rightarrow> string \<Rightarrow> string \<Rightarrow> string \<Rightarrow> state \<Rightarrow> state \<times> effect list" where
  "join now socket_id room username language role s =
     (if room = [] \<or> username = [] \<or> language = [] \<or> role = []
      then (s, [SocketEmit socket_id (ErrorEv ''Invalid join parameters'')])
      else
        let users = (case map_of (rooms s) room of None \<Rightarrow> [] | Some us \<Rightarrow> us);
            profile = \<lparr>u_username = username, u_language = language, u_role = role\<rparr>;
            rooms' = AList.update room (AList.update socket_id profile users) (rooms s);
            replay = (case messageHistory s room of
                        None \<Rightarrow> []
                      | Some h \<Rightarrow> [SocketEmit socket_id (MessageHistoryEv (filteredHistory role h))]);
            h0 = (case messageHistory s room of None \<Rightarrow> [] | Some h \<Rightarrow> h);
            notice = joinMessage username now
        in (\<lparr>rooms = rooms', messageHistory = (messageHistory s)(room \<mapsto> h0 @ [notice])\<rparr>,
            replay @ [IoToEmit room (MessageEv notice)]))"

subsection \<open>chatMessage\<close>

text \<open>The loop over the participants that pushes a suggestion batch to the agents.\<close>

fun emit_suggestions :: "string list \<Rightarrow> (string \<times> user) list \<Rightarrow> effect list" where
  "emit_suggestions suggestions [] = []"
| "emit_suggestions suggestions ((userId, user) # rest) =
     (if u_role user = ''agent''
      then IoToEmit userId (SuggestionsEv suggestions) # emit_suggestions suggestions rest
      else emit_suggestions suggestions rest)"

definition suggest ::
  "(string \<Rightarrow> string + string list) \<Rightarrow> string \<Rightarrow> user \<Rightarrow> string \<Rightarrow> (string \<times> user) list
   \<Rightarrow> effect list" where
  "suggest genAI socket_id sender message roomUsers =
     (if u_role sender = ''user''
      then AnalyzeCall message #
           (case analyzeMessage genAI message of
              Inr suggestions \<Rightarrow> emit_suggestions suggestions roomUsers
            | Inl e \<Rightarrow> [SocketEmit socket_id (ErrorEv ''Failed to generate suggestions'')])
      else [])"

text \<open>
  The record built for one recipient inside the \<open>try\<close> of the delivery loop. The
  translation request made for recipient \<open>userId\<close> has the outcome \<open>axios userId\<close>, so
  that two requests of one fan-out may end differently. \<open>Inl\<close> is the error thrown by
  \<open>translateText\<close>, in which case no record exists.
\<close>

definition messageToSend ::
  "(string \<Rightarrow> string \<Rightarrow> string \<Rightarrow> string option) \<Rightarrow> string \<Rightarrow> user \<Rightarrow> string \<Rightarrow> string
   \<Rightarrow> string \<Rightarrow> user \<Rightarrow> string + message" where
  "messageToSend axios timestamp sender message language userId user =
     (case (if u_language user \<noteq> language
            then translateText (axios userId) message (u_language user)
            else Inr message) of
        Inl e \<Rightarrow> Inl e
      | Inr t \<Rightarrow>
          Inr \<lparr>m_username = u_username sender,
               m_text = t,
               m_originalText = Some message,
               m_isTranslated = Some (u_language user \<noteq> language),
               m_timestamp = timestamp,
               m_type = ''public'',
               m_role = Some (u_role sender)\<rparr>)"

text \<open>
  The body of the delivery loop for one participant. A failed translation and a push
  onto a missing history array (a \<open>TypeError\<close>) both end in the \<open>catch\<close> of the loop
  body, which emits the failure to that recipient and lets the loop go on. The record
  is pushed onto the history before it is emitted.
\<close>

definition deliver_one ::
  "(string \<Rightarrow> string \<Rightarrow> string \<Rightarrow> string option) \<Rightarrow> string \<Rightarrow> user \<Rightarrow> string \<Rightarrow> string \<Rightarrow> string
   \<Rightarrow> string \<Rightarrow> user \<Rightarrow> (string \<rightharpoonup> message list) \<Rightarrow> (string \<rightharpoonup> message list) \<times> effect list" where
  "deliver_one axios timestamp sender room message language userId user mh =
     (let failed = IoToEmit userId (ErrorEv ''Message delivery failed'');
          called = (if u_language user \<noteq> language
                    then [TranslateCall message (u_language user)] else [])
      in case messageToSend axios timestamp sender message language userId user of
           Inl e \<Rightarrow> (mh, called @ [failed])
         | Inr m \<Rightarrow>
             (case mh room of
                None \<Rightarrow> (mh, called @ [failed])
              | Some h \<Rightarrow> (mh(room \<mapsto> h @ [m]), called @ [IoToEmit userId (MessageEv m)])))"

fun deliver ::
  "(string \<Rightarrow> string \<Rightarrow> string \<Rightarrow> string option) \<Rightarrow> string \<Rightarrow> user \<Rightarrow> string \<Rightarrow> string \<Rightarrow> string
   \<Rightarrow> (string \<times> user) list \<Rightarrow> (string \<rightharpoonup> message list) \<Rightarrow> (string \<rightharpoonup> message list) \<times> effect list" where
  "deliver axios timestamp sender room message language [] mh = (mh, [])"
| "deliver axios timestamp sender room message language ((userId, user) # rest) mh =
     (let (mh1, fx1) = deliver_one axios timestamp sender room message language userId user mh;
          (mh2, fx2) = deliver axios timestamp sender room message language rest mh1
      in (mh2, fx1 @ fx2))"

definition chatMessage ::
  "(string \<Rightarrow> string + string list) \<Rightarrow> (string \<Rightarrow> string \<Rightarrow> string \<Rightarrow> string option) \<Rightarrow> string
   \<Rightarrow> string \<Rightarrow> string \<Rightarrow> string \<Rightarrow> string \<Rightarrow> state \<Rightarrow> state \<times> effect list" where
  "chatMessage genAI axios now socket_id room message language s =
     (if room = [] \<or> message = [] \<or> language = []
      then (s, [SocketEmit socket_id (ErrorEv ''Invalid message parameters'')])
      else case map_of (rooms s) room of
        None \<Rightarrow> (s, [SocketEmit socket_id (ErrorEv ''Room not found'')])
      | Some roomUsers \<Rightarrow>
          (case map_of roomUsers socket_id of
             None \<Rightarrow> (s, [SocketEmit socket_id (ErrorEv ''User not found in room'')])
           | Some sender \<Rightarrow>
               (let fx1 = suggest genAI socket_id sender message roomUsers;
                    (mh, fx2) = deliver axios now sender room message language roomUsers
                                  (messageHistory s)
                in (s\<lparr>messageHistory := mh\<rparr>, fx1 @ fx2))))"

subsection \<open>disconnect\<close>

text \<open>
  The loop over \<open>rooms\<close> stops at the first room that holds the socket id: it removes
  the participant there and, when the room is then empty, the room and its history.
  The handler emits nothing.
\<close>

fun disconnect_rooms :: "string \<Rightarrow> (string \<times> (string \<times> user) list) list \<Rightarrow> state \<Rightarrow> state" where
  "disconnect_rooms socket_id [] s = s"
| "disconnect_rooms socket_id ((room, users) # rest) s =
     (if map_of users socket_id \<noteq> None
      then (let users' = AList.delete socket_id users
            in if length users' = 0
               then \<lparr>rooms = AList.delete room (rooms s),
                     messageHistory = (messageHistory s)(room := None)\<rparr>
               else s\<lparr>rooms := AList.update room users' (rooms s)\<rparr>)
      else disconnect_rooms socket_id rest s)"

definition disconnect :: "string \<Rightarrow> state \<Rightarrow> state \<times> effect list" where
  "disconnect socket_id s = (disconnect_rooms socket_id (rooms s) s, [])"

subsection \<open>Runs of the relay\<close>

datatype event =
    Join string string string string string string
  | ChatMessage "string \<Rightarrow> string + string list" "string \<Rightarrow> string \<Rightarrow> string \<Rightarrow> string option"
      string string string string string
  | Disconnect string

fun handle :: "event \<Rightarrow> state \<Rightarrow> state \<times> effect list" where
  "handle (Join now socket_id room username language role) s =
     join now socket_id room username language role s"
| "handle (ChatMessage genAI axios now socket_id room message language) s =
     chatMessage genAI axios now socket_id room message language s"
| "handle (Disconnect socket_id) s = disconnect socket_id s"

fun run :: "event list \<Rightarrow> state \<Rightarrow> state" where
  "run [] s = s"
| "run (e # es) s = run es (fst (handle e s))"

text \<open>The events that name a given room in a join.\<close>

fun joins :: "string \<Rightarrow> event \<Rightarrow> bool" where
  "joins r (Join now socket_id room username language role) = (room = r)"
| "joins r (ChatMessage genAI axios now socket_id room message language) = False"
| "joins r (Disconnect socket_id) = False"

subsection \<open>The invariant of the two maps\<close>

text \<open>
  Keys of a \<open>Map\<close> are unique. Every room of the registry has a participant, and its
  history array exists.
\<close>

definition relay_inv :: "state \<Rightarrow> bool" where
  "relay_inv s \<longleftrightarrow> distinct (map fst (rooms s)) \<and>
     (\<forall>(room, users) \<in> set (rooms s).
        users \<noteq> [] \<and> distinct (map fst users) \<and> messageHistory s room \<noteq> None)"

subsection \<open>Example runs\<close>

text \<open>
  The scenario of the specification: in room r1 the agent Ann (English) and the user
  Bob (French) join, then Bob sends bonjour, declared French; the translation service
  answers requests into English and fails the others.
\<close>

definition ann :: user where
  "ann = \<lparr>u_username = ''Ann'', u_language = ''en'', u_role = ''agent''\<rparr>"

definition bob :: user where
  "bob = \<lparr>u_username = ''Bob'', u_language = ''fr'', u_role = ''user''\<rparr>"

definition ann_bob_events :: "event list" where
  "ann_bob_events =
     [Join ''t1'' ''a'' ''r1'' ''Ann'' ''en'' ''agent'',
      Join ''t2'' ''b'' ''r1'' ''Bob'' ''fr'' ''user'']"

definition to_english :: "string \<Rightarrow> string \<Rightarrow> string \<Rightarrow> string option" where
  "to_english userId text targetLanguage =
     (if targetLanguage = ''en'' then Some ''hello'' else None)"

definition greet :: "string \<Rightarrow> string + string list" where
  "greet text = Inr [''Greet the customer'']"

definition bonjour_events :: "event list" where
  "bonjour_events = ann_bob_events @
     [ChatMessage greet to_english ''t3'' ''b'' ''r1'' ''bonjour'' ''fr'']"

text \<open>Ann alone in room r1.\<close>

definition ann_alone_events :: "event list" where
  "ann_alone_events = [Join ''t1'' ''a'' ''r1'' ''Ann'' ''en'' ''agent'']"

definition bonjour_translated :: message where
  "bonjour_translated =
     \<lparr>m_username = ''Bob'', m_text = ''hello'', m_originalText = Some ''bonjour'',
      m_isTranslated = Some True, m_timestamp = ''t3'', m_type = ''public'',
      m_role = Some ''user''\<rparr>"

definition bonjour_original :: message where
  "bonjour_original =
     \<lparr>m_username = ''Bob'', m_text = ''bonjour'', m_originalText = Some ''bonjour'',
      m_isTranslated = Some False, m_timestamp = ''t3'', m_type = ''public'',
      m_role = Some ''user''\<rparr>"

text \<open>
  Ann, the supervisor Dee (German) and Bob in room r1: a translation into German fails.
\<close>

definition dee :: user where
  "dee = \<lparr>u_username = ''Dee'', u_language = ''de'', u_role = ''supervisor''\<rparr>"

definition trio_events :: "event list" where
  "trio_events =
     [Join ''t0'' ''a'' ''r1'' ''Ann'' ''en'' ''agent'',
      Join ''t1'' ''d'' ''r1'' ''Dee'' ''de'' ''supervisor'',
      Join ''t2'' ''b'' ''r1'' ''Bob'' ''fr'' ''user'']"

text \<open>One connection that joins two rooms, one after the other.\<close>

definition cy :: user where
  "cy = \<lparr>u_username = ''Cy'', u_language = ''en'', u_role = ''user''\<rparr>"

definition two_rooms_events :: "event list" where
  "two_rooms_events =
     [Join ''t1'' ''c'' ''r1'' ''Cy'' ''en'' ''user'',
      Join ''t2'' ''c'' ''r2'' ''Cy'' ''en'' ''user'']"

section \<open>Properties of the loops\<close>

lemma deliver_Some:
  "mh room = Some h \<Longrightarrow>
   deliver axios now sender room message language us mh =
     (mh(room \<mapsto> h @ concat (map (\<lambda>(userId, user).
          case messageToSend axios now sender message language userId user of
            Inl e \<Rightarrow> [] | Inr m \<Rightarrow> [m]) us)),
      concat (map (\<lambda>(userId, user).
          (if u_language user \<noteq> language then [TranslateCall message (u_language user)] else []) @
          [case messageToSend axios now sender message language userId user of
             Inl e \<Rightarrow> IoToEmit userId (ErrorEv ''Message delivery failed'')
           | Inr m \<Rightarrow> IoToEmit userId (MessageEv m)]) us))"
proof (induction us arbitrary: mh h)
  case Nil
  then show ?case by (simp add: fun_upd_idem)
next
  case (Cons p us)
  obtain userId user where p: "p = (userId, user)" by (cases p)
  show ?case
  proof (cases "messageToSend axios now sender message language userId user")
    case (Inl e)
    note IH = Cons.IH[of mh h, OF Cons.prems]
    show ?thesis unfolding p
      by (simp add: deliver_one_def Inl IH)
  next
    case (Inr m)
    have "(mh(room \<mapsto> h @ [m])) room = Some (h @ [m])" by simp
    note IH = Cons.IH[of "mh(room \<mapsto> h @ [m])" "h @ [m]", OF this]
    show ?thesis unfolding p
      by (auto simp add: deliver_one_def Inr Cons.prems IH)
  qed
qed

lemma set_update_subset: "p \<in> set (AList.update k v al) \<Longrightarrow> p = (k, v) \<or> p \<in> set al"
  by (induction al) (auto split: if_splits)

lemma set_delete_iff: "p \<in> set (AList.delete k al) \<longleftrightarrow> p \<in> set al \<and> fst p \<noteq> k"
  by (auto simp: AList.delete_eq)


lemma deliver_Cons:
  "deliver axios now sender room message language ((userId, user) # rest) mh =
     (fst (deliver axios now sender room message language rest
             (fst (deliver_one axios now sender room message language userId user mh))),
      snd (deliver_one axios now sender room message language userId user mh) @
      snd (deliver axios now sender room message language rest
             (fst (deliver_one axios now sender room message language userId user mh))))"
  by (simp add: split_beta)

lemma deliver_one_other:
  "r \<noteq> room \<Longrightarrow> fst (deliver_one axios now sender room message language userId user mh) r = mh r"
  by (simp add: deliver_one_def Let_def split: sum.splits option.splits)

lemma deliver_one_None:
  "mh room = None \<Longrightarrow> fst (deliver_one axios now sender room message language userId user mh) = mh"
  by (simp add: deliver_one_def Let_def split: sum.splits option.splits)

lemma deliver_one_effects_shape:
  "e \<in> set (snd (deliver_one axios now sender room message language userId user mh)) \<Longrightarrow>
     (\<exists>t l. e = TranslateCall t l) \<or>
     (\<exists>userId. e = IoToEmit userId (ErrorEv ''Message delivery failed'')) \<or>
     (\<exists>userId m. e = IoToEmit userId (MessageEv m))"
  by (auto simp add: deliver_one_def Let_def split: sum.splits option.splits if_splits)

lemma deliver_other:
  "r \<noteq> room \<Longrightarrow> fst (deliver axios now sender room message language us mh) r = mh r"
proof (induction us arbitrary: mh)
  case Nil
  then show ?case by simp
next
  case (Cons p us)
  obtain userId user where p: "p = (userId, user)" by (cases p)
  show ?case unfolding p deliver_Cons
    by (simp add: Cons.IH[OF Cons.prems] deliver_one_other[OF Cons.prems])
qed

lemma deliver_None:
  "mh room = None \<Longrightarrow> fst (deliver axios now sender room message language us mh) = mh"
proof (induction us)
  case Nil
  then show ?case by simp
next
  case (Cons p us)
  obtain userId user where p: "p = (userId, user)" by (cases p)
  show ?case unfolding p deliver_Cons
    using Cons by (simp add: deliver_one_None)
qed

lemma deliver_effects_shape:
  "e \<in> set (snd (deliver axios now sender room message language us mh)) \<Longrightarrow>
     (\<exists>t l. e = TranslateCall t l) \<or>
     (\<exists>userId. e = IoToEmit userId (ErrorEv ''Message delivery failed'')) \<or>
     (\<exists>userId m. e = IoToEmit userId (MessageEv m))"
proof (induction us arbitrary: mh)
  case Nil
  then show ?case by simp
next
  case (Cons p us)
  obtain userId user where p: "p = (userId, user)" by (cases p)
  from Cons.prems have
    "e \<in> set (snd (deliver_one axios now sender room message language userId user mh)) \<or>
     e \<in> set (snd (deliver axios now sender room message language us
                      (fst (deliver_one axios now sender room message language userId user mh))))"
    unfolding p deliver_Cons by simp
  then show ?case
    using deliver_one_effects_shape Cons.IH by blast
qed

lemma init_inv: "relay_inv init"
  by (simp add: relay_inv_def init_def)

lemma join_rooms:
  "rooms (fst (join now socket_id room username language role s)) =
     (if room = [] \<or> username = [] \<or> language = [] \<or> role = [] then rooms s
      else AList.update room
             (AList.update socket_id
                \<lparr>u_username = username, u_language = language, u_role = role\<rparr>
                (case map_of (rooms s) room of None \<Rightarrow> [] | Some us \<Rightarrow> us))
             (rooms s))"
  by (simp add: join_def Let_def)

lemma join_history:
  "messageHistory (fst (join now socket_id room username language role s)) =
     (if room = [] \<or> username = [] \<or> language = [] \<or> role = [] then messageHistory s
      else (messageHistory s)
             (room \<mapsto> (case messageHistory s room of None \<Rightarrow> [] | Some h \<Rightarrow> h) @
                      [joinMessage username now]))"
  by (simp add: join_def Let_def)

lemma join_inv:
  assumes "relay_inv s"
  shows "relay_inv (fst (join now socket_id room username language role s))"
proof (cases "room = [] \<or> username = [] \<or> language = [] \<or> role = []")
  case True
  then show ?thesis using assms by (simp add: join_def)
next
  case False
  let ?s' = "fst (join now socket_id room username language role s)"
  let ?users = "case map_of (rooms s) room of None \<Rightarrow> [] | Some us \<Rightarrow> us"
  from assms have old: "\<And>r us. (r, us) \<in> set (rooms s) \<Longrightarrow>
      us \<noteq> [] \<and> distinct (map fst us) \<and> messageHistory s r \<noteq> None"
    by (auto simp: relay_inv_def)
  have du: "distinct (map fst ?users)"
    using old by (auto split: option.splits dest: map_of_SomeD)
  have d: "distinct (map fst (rooms ?s'))"
    using assms False by (simp add: join_rooms relay_inv_def AList.distinct_update)
  have "users \<noteq> [] \<and> distinct (map fst users) \<and> messageHistory ?s' r \<noteq> None"
    if "(r, users) \<in> set (rooms ?s')" for r users
  proof -
    from that False consider "r = room" "users \<noteq> []" "distinct (map fst users)"
      | "(r, users) \<in> set (rooms s)"
      using du by (auto simp add: join_rooms AList.distinct_update dest: set_update_subset)
    then show ?thesis
    proof cases
      case 1
      then show ?thesis using False by (simp add: join_history)
    next
      case 2
      from old[OF 2] show ?thesis using False by (simp add: join_history)
    qed
  qed
  with d show ?thesis unfolding relay_inv_def by blast
qed

lemma chatMessage_rooms: "rooms (fst (chatMessage genAI axios now socket_id room message language s)) = rooms s"
  by (simp add: chatMessage_def split_beta Let_def split: option.splits)

lemma chatMessage_history:
  "messageHistory (fst (chatMessage genAI axios now socket_id room message language s)) =
     (if room = [] \<or> message = [] \<or> language = [] then messageHistory s
      else case map_of (rooms s) room of
             None \<Rightarrow> messageHistory s
           | Some roomUsers \<Rightarrow>
               (case map_of roomUsers socket_id of
                  None \<Rightarrow> messageHistory s
                | Some sender \<Rightarrow>
                    fst (deliver axios now sender room message language roomUsers
                           (messageHistory s))))"
  by (simp add: chatMessage_def split_beta Let_def split: option.splits)

lemma chatMessage_history_dom:
  assumes "messageHistory s r \<noteq> None"
  shows "messageHistory (fst (chatMessage genAI axios now socket_id room message language s)) r \<noteq> None"
proof (cases "r = room")
  case False
  with assms show ?thesis
    by (simp add: chatMessage_history deliver_other split: option.splits)
next
  case True
  from assms obtain h where h: "messageHistory s room = Some h" using True by auto
  show ?thesis unfolding True
    using h by (simp add: chatMessage_history deliver_Some split: option.splits)
qed

lemma chatMessage_inv:
  assumes "relay_inv s"
  shows "relay_inv (fst (chatMessage genAI axios now socket_id room message language s))"
proof -
  have "users \<noteq> [] \<and> distinct (map fst users) \<and>
        messageHistory (fst (chatMessage genAI axios now socket_id room message language s)) r \<noteq> None"
    if "(r, users) \<in> set (rooms s)" for r users
  proof -
    from assms that have "users \<noteq> []" "distinct (map fst users)" "messageHistory s r \<noteq> None"
      by (auto simp: relay_inv_def)
    then show ?thesis using chatMessage_history_dom by simp
  qed
  moreover have "distinct (map fst (rooms s))" using assms by (simp add: relay_inv_def)
  ultimately show ?thesis unfolding relay_inv_def chatMessage_rooms by blast
qed

lemma disconnect_rooms_inv:
  "relay_inv s \<Longrightarrow> set rs \<subseteq> set (rooms s) \<Longrightarrow> relay_inv (disconnect_rooms socket_id rs s)"
proof (induction rs)
  case Nil
  then show ?case by simp
next
  case (Cons p rs)
  obtain room users where p: "p = (room, users)" by (cases p)
  from Cons.prems p have mem: "(room, users) \<in> set (rooms s)" by simp
  from Cons.prems(1) have d: "distinct (map fst (rooms s))"
    and ne: "\<And>r us. (r, us) \<in> set (rooms s) \<Longrightarrow>
               us \<noteq> [] \<and> distinct (map fst us) \<and> messageHistory s r \<noteq> None"
    by (auto simp: relay_inv_def)
  show ?case
  proof (cases "map_of users socket_id \<noteq> None")
    case False
    then show ?thesis using Cons p by simp
  next
    case found: True
    show ?thesis
    proof (cases "AList.delete socket_id users = []")
      case True
      let ?s' = "\<lparr>rooms = AList.delete room (rooms s),
                  messageHistory = (messageHistory s)(room := None)\<rparr>"
      have "us \<noteq> [] \<and> distinct (map fst us) \<and> messageHistory ?s' r \<noteq> None"
        if "(r, us) \<in> set (rooms ?s')" for r us
      proof -
        from that have "(r, us) \<in> set (rooms s)" "r \<noteq> room"
          by (simp_all add: set_delete_iff)
        then show ?thesis using ne[of r us] by simp
      qed
      moreover have "distinct (map fst (rooms ?s'))"
        using d by (simp add: AList.distinct_delete)
      ultimately have "relay_inv ?s'" unfolding relay_inv_def by blast
      then show ?thesis unfolding p using found True by simp
    next
      case False
      let ?s' = "s\<lparr>rooms := AList.update room (AList.delete socket_id users) (rooms s)\<rparr>"
      have "us \<noteq> [] \<and> distinct (map fst us) \<and> messageHistory ?s' r \<noteq> None"
        if "(r, us) \<in> set (rooms ?s')" for r us
      proof -
        from that have "(r, us) = (room, AList.delete socket_id users) \<or> (r, us) \<in> set (rooms s)"
          using set_update_subset[of "(r, us)" room "AList.delete socket_id users" "rooms s"] by simp
        then show ?thesis using False ne[OF mem] ne[of r us]
          by (auto simp: AList.distinct_delete)
      qed
      moreover have "distinct (map fst (rooms ?s'))"
        using d by (simp add: AList.distinct_update)
      ultimately have "relay_inv ?s'" unfolding relay_inv_def by blast
      then show ?thesis unfolding p using found False by simp
    qed
  qed
qed

lemma disconnect_inv: "relay_inv s \<Longrightarrow> relay_inv (fst (disconnect socket_id s))"
  by (simp add: disconnect_def disconnect_rooms_inv)

lemma handle_inv: "relay_inv s \<Longrightarrow> relay_inv (fst (handle e s))"
  by (cases e) (simp_all add: join_inv chatMessage_inv disconnect_inv)

lemma run_inv: "relay_inv s \<Longrightarrow> relay_inv (run es s)"
  by (induction es arbitrary: s) (simp_all add: handle_inv)

lemma run_init_inv: "relay_inv (run es init)"
  by (rule run_inv[OF init_inv])

lemma emit_suggestions_eq:
  "emit_suggestions suggestions us =
     map (\<lambda>(userId, user). IoToEmit userId (SuggestionsEv suggestions))
       (filter (\<lambda>(userId, user). u_role user = ''agent'') us)"
  by (induction us) auto

lemma chatMessage_effects:
  assumes "room \<noteq> []" and "message \<noteq> []" and "language \<noteq> []"
    and "map_of (rooms s) room = Some roomUsers"
    and "map_of roomUsers socket_id = Some sender"
  shows "snd (chatMessage genAI axios now socket_id room message language s) =
           suggest genAI socket_id sender message roomUsers @
           snd (deliver axios now sender room message language roomUsers (messageHistory s))"
  using assms by (simp add: chatMessage_def split_beta Let_def)

lemma deliver_only_delivers:
  "AnalyzeCall x \<notin> set (snd (deliver axios now sender room message language us mh))"
  "SocketEmit t p \<notin> set (snd (deliver axios now sender room message language us mh))"
  "IoToEmit t (SuggestionsEv q) \<notin> set (snd (deliver axios now sender room message language us mh))"
  "IoToEmit t (MessageHistoryEv l) \<notin> set (snd (deliver axios now sender room message language us mh))"
  using deliver_effects_shape by blast+

lemma disconnect_rooms_skip:
  "\<forall>(r, us) \<in> set pre. map_of us socket_id = None \<Longrightarrow>
   disconnect_rooms socket_id (pre @ rest) s = disconnect_rooms socket_id rest s"
  by (induction pre) auto

lemma disconnect_found:
  assumes "rooms s = pre @ (room, users) # post"
    and "\<forall>(r, us) \<in> set pre. map_of us socket_id = None"
    and "map_of users socket_id \<noteq> None"
  shows "disconnect socket_id s =
           (if AList.delete socket_id users = []
            then \<lparr>rooms = AList.delete room (rooms s),
                  messageHistory = (messageHistory s)(room := None)\<rparr>
            else s\<lparr>rooms := AList.update room (AList.delete socket_id users) (rooms s)\<rparr>,
            [])"
proof -
  have "disconnect_rooms socket_id (rooms s) s =
          disconnect_rooms socket_id ((room, users) # post) s"
    unfolding assms(1) by (rule disconnect_rooms_skip[OF assms(2)])
  then show ?thesis using assms(3) by (simp add: disconnect_def Let_def)
qed

lemma disconnect_rooms_history_None:
  "messageHistory s r = None \<Longrightarrow> messageHistory (disconnect_rooms socket_id rs s) r = None"
  by (induction rs) (auto simp: Let_def)

lemma handle_history_None:
  assumes "messageHistory s r = None" and "\<not> joins r e"
  shows "messageHistory (fst (handle e s)) r = None"
proof (cases e)
  case (Join now socket_id room username language role)
  with assms show ?thesis by (simp add: join_history)
next
  case (ChatMessage genAI axios now socket_id room message language)
  show ?thesis
  proof (cases "room = r")
    case True
    with assms(1) ChatMessage show ?thesis
      by (simp add: chatMessage_history deliver_None split: option.splits)
  next
    case False
    with assms(1) ChatMessage show ?thesis
      by (simp add: chatMessage_history deliver_other split: option.splits)
  qed
next
  case (Disconnect socket_id)
  with assms(1) show ?thesis by (simp add: disconnect_def disconnect_rooms_history_None)
qed

lemma run_history_None:
  "messageHistory s r = None \<Longrightarrow> \<forall>e \<in> set es. \<not> joins r e \<Longrightarrow>
   messageHistory (run es s) r = None"
  by (induction es arbitrary: s) (simp_all add: handle_history_None)

lemma join_no_history:
  "messageHistory s room = None \<Longrightarrow>
   snd (join now socket_id room username language role s) =
     (if room = [] \<or> username = [] \<or> language = [] \<or> role = []
      then [SocketEmit socket_id (ErrorEv ''Invalid join parameters'')]
      else [IoToEmit room (MessageEv (joinMessage username now))])"
  by (simp add: join_def Let_def)

lemma run_room_facts:
  assumes "map_of (rooms (run es init)) room = Some roomUsers"
  shows "distinct (map fst roomUsers)" and "\<exists>h. messageHistory (run es init) room = Some h"
proof -
  from assms have "(room, roomUsers) \<in> set (rooms (run es init))" by (rule map_of_SomeD)
  with run_init_inv[of es] show "distinct (map fst roomUsers)"
    and "\<exists>h. messageHistory (run es init) room = Some h"
    by (auto simp: relay_inv_def)
qed

lemma suggest_shape:
  "e \<in> set (suggest genAI socket_id sender message roomUsers) \<Longrightarrow>
     (\<exists>x. e = AnalyzeCall x) \<or> (\<exists>t p. e = IoToEmit t (SuggestionsEv p)) \<or>
     (\<exists>t. e = SocketEmit t (ErrorEv ''Failed to generate suggestions''))"
  by (auto simp: suggest_def emit_suggestions_eq split: if_splits sum.splits)

lemma suggest_no_delivery:
  "IoToEmit t (MessageEv m) \<notin> set (suggest genAI socket_id sender message roomUsers)"
  "IoToEmit t (ErrorEv x) \<notin> set (suggest genAI socket_id sender message roomUsers)"
  "SocketEmit t (ErrorEv ''Message delivery failed'')
     \<notin> set (suggest genAI socket_id sender message roomUsers)"
  using suggest_shape by fastforce+

lemma deliver_message_iff:
  assumes "mh room = Some h"
  shows "IoToEmit t (MessageEv m) \<in> set (snd (deliver axios now sender room message language us mh))
         \<longleftrightarrow> (\<exists>u. (t, u) \<in> set us \<and> messageToSend axios now sender message language t u = Inr m)"
proof -
  have "IoToEmit t (MessageEv m)
          \<in> set (concat (map (\<lambda>(userId, user).
                (if u_language user \<noteq> language then [TranslateCall message (u_language user)]
                 else []) @
                [case messageToSend axios now sender message language userId user of
                   Inl e \<Rightarrow> IoToEmit userId (ErrorEv ''Message delivery failed'')
                 | Inr m \<Rightarrow> IoToEmit userId (MessageEv m)]) us))
        \<longleftrightarrow> (\<exists>u. (t, u) \<in> set us \<and> messageToSend axios now sender message language t u = Inr m)"
  proof (induction us)
    case Nil
    show ?case by simp
  next
    case (Cons p us)
    obtain userId user where p: "p = (userId, user)" by (cases p)
    show ?case
      by (cases "messageToSend axios now sender message language userId user")
         (use Cons.IH in \<open>auto simp: p\<close>)
  qed
  then show ?thesis unfolding deliver_Some[of mh room h, OF assms] by simp
qed

lemma deliver_failed_iff:
  assumes "mh room = Some h"
  shows "IoToEmit t (ErrorEv ''Message delivery failed'')
           \<in> set (snd (deliver axios now sender room message language us mh))
         \<longleftrightarrow> (\<exists>u e. (t, u) \<in> set us \<and> messageToSend axios now sender message language t u = Inl e)"
proof -
  have "IoToEmit t (ErrorEv ''Message delivery failed'')
          \<in> set (concat (map (\<lambda>(userId, user).
                (if u_language user \<noteq> language then [TranslateCall message (u_language user)]
                 else []) @
                [case messageToSend axios now sender message language userId user of
                   Inl e \<Rightarrow> IoToEmit userId (ErrorEv ''Message delivery failed'')
                 | Inr m \<Rightarrow> IoToEmit userId (MessageEv m)]) us))
        \<longleftrightarrow> (\<exists>u e. (t, u) \<in> set us \<and> messageToSend axios now sender message language t u = Inl e)"
  proof (induction us)
    case Nil
    show ?case by simp
  next
    case (Cons p us)
    obtain userId user where p: "p = (userId, user)" by (cases p)
    show ?case
      by (cases "messageToSend axios now sender message language userId user")
         (use Cons.IH in \<open>auto simp: p\<close>)
  qed
  then show ?thesis unfolding deliver_Some[of mh room h, OF assms] by simp
qed

lemma fanout_message_iff:
  assumes "room \<noteq> []" and "message \<noteq> []" and "language \<noteq> []"
    and "map_of (rooms (run es init)) room = Some roomUsers"
    and "map_of roomUsers socket_id = Some sender"
    and "(userId, user) \<in> set roomUsers"
  shows "IoToEmit userId (MessageEv m)
           \<in> set (snd (chatMessage genAI axios now socket_id room message language (run es init)))
         \<longleftrightarrow> messageToSend axios now sender message language userId user = Inr m"
proof -
  from run_room_facts[OF assms(4)] obtain h where
    d: "distinct (map fst roomUsers)" and h: "messageHistory (run es init) room = Some h"
    by blast
  have u: "u = user" if "(userId, u) \<in> set roomUsers" for u
    by (rule eq_key_imp_eq_value[OF d that assms(6)])
  have "IoToEmit userId (MessageEv m)
           \<in> set (snd (chatMessage genAI axios now socket_id room message language (run es init)))
        \<longleftrightarrow> IoToEmit userId (MessageEv m)
           \<in> set (snd (deliver axios now sender room message language roomUsers
                          (messageHistory (run es init))))"
    unfolding chatMessage_effects[OF assms(1-5)] by (simp add: suggest_no_delivery)
  also have "\<dots> \<longleftrightarrow> (\<exists>u. (userId, u) \<in> set roomUsers \<and>
                        messageToSend axios now sender message language userId u = Inr m)"
    by (rule deliver_message_iff[of "messageHistory (run es init)" room h, OF h])
  also have "\<dots> \<longleftrightarrow> messageToSend axios now sender message language userId user = Inr m"
    using u assms(6) by blast
  finally show ?thesis .
qed

lemma fanout_failed_iff:
  assumes "room \<noteq> []" and "message \<noteq> []" and "language \<noteq> []"
    and "map_of (rooms (run es init)) room = Some roomUsers"
    and "map_of roomUsers socket_id = Some sender"
    and "(userId, user) \<in> set roomUsers"
  shows "IoToEmit userId (ErrorEv ''Message delivery failed'')
           \<in> set (snd (chatMessage genAI axios now socket_id room message language (run es init)))
         \<longleftrightarrow> (\<exists>e. messageToSend axios now sender message language userId user = Inl e)"
proof -
  from run_room_facts[OF assms(4)] obtain h where
    d: "distinct (map fst roomUsers)" and h: "messageHistory (run es init) room = Some h"
    by blast
  have u: "u = user" if "(userId, u) \<in> set roomUsers" for u
    by (rule eq_key_imp_eq_value[OF d that assms(6)])
  have "IoToEmit userId (ErrorEv ''Message delivery failed'')
           \<in> set (snd (chatMessage genAI axios now socket_id room message language (run es init)))
        \<longleftrightarrow> IoToEmit userId (ErrorEv ''Message delivery failed'')
           \<in> set (snd (deliver axios now sender room message language roomUsers
                          (messageHistory (run es init))))"
    unfolding chatMessage_effects[OF assms(1-5)] by (simp add: suggest_no_delivery)
  also have "\<dots> \<longleftrightarrow> (\<exists>u e. (userId, u) \<in> set roomUsers \<and>
                        messageToSend axios now sender message language userId u = Inl e)"
    by (rule deliver_failed_iff[of "messageHistory (run es init)" room h, OF h])
  also have "\<dots> \<longleftrightarrow> (\<exists>e. messageToSend axios now sender message language userId user = Inl e)"
    using u assms(6) by blast
  finally show ?thesis .
qed

lemma fanout_history:
  assumes "room \<noteq> []" and "message \<noteq> []" and "language \<noteq> []"
    and "map_of (rooms (run es init)) room = Some roomUsers"
    and "map_of roomUsers socket_id = Some sender"
    and "messageHistory (run es init) room = Some h"
  shows "messageHistory (fst (chatMessage genAI axios now socket_id room message language
                                (run es init))) room =
           Some (h @ concat (map (\<lambda>(userId, user).
                   case messageToSend axios now sender message language userId user of
                     Inl e \<Rightarrow> [] | Inr m \<Rightarrow> [m]) roomUsers))"
  using assms by (simp add: chatMessage_history deliver_Some[of "messageHistory (run es init)" room h, OF assms(6)])

lemma messageToSend_timestamp:
  "messageToSend axios now sender message language userId user = Inr m \<Longrightarrow> m_timestamp m = now"
  by (auto simp: messageToSend_def split: sum.splits if_splits)

lemma records_member_iff:
  "m \<in> set (concat (map (\<lambda>(userId, user). case R userId user of Inl e \<Rightarrow> [] | Inr m \<Rightarrow> [m]) us))
   \<longleftrightarrow> (\<exists>userId user. (userId, user) \<in> set us \<and> R userId user = Inr m)"
proof (induction us)
  case Nil
  show ?case by simp
next
  case (Cons p us)
  obtain userId user where p: "p = (userId, user)" by (cases p)
  show ?case by (cases "R userId user") (use Cons.IH in \<open>auto simp: p\<close>)
qed

lemma records_all_success:
  "\<forall>(userId, user) \<in> set us. \<exists>m. R userId user = Inr m \<Longrightarrow>
   map Inr (concat (map (\<lambda>(userId, user). case R userId user of Inl e \<Rightarrow> [] | Inr m \<Rightarrow> [m]) us))
     = map (\<lambda>(userId, user). R userId user) us"
  by (induction us) auto

lemma records_length:
  "length (concat (map (\<lambda>(userId, user). case R userId user of Inl e \<Rightarrow> [] | Inr m \<Rightarrow> [m]) us))
     = length (filter (\<lambda>(userId, user). \<forall>e. R userId user \<noteq> Inl e) us)"
proof (induction us)
  case Nil
  show ?case by simp
next
  case (Cons p us)
  obtain userId user where p: "p = (userId, user)" by (cases p)
  show ?case by (cases "R userId user") (use Cons.IH in \<open>auto simp: p\<close>)
qed

section \<open>The example runs, evaluated\<close>

lemma ann_bob_rooms: "rooms (run ann_bob_events init) = [(''r1'', [(''a'', ann), (''b'', bob)])]"
  by (simp add: ann_bob_events_def init_def join_def Let_def ann_def bob_def)

lemma ann_bob_history:
  "messageHistory (run ann_bob_events init) ''r1'' =
     Some [joinMessage ''Ann'' ''t1'', joinMessage ''Bob'' ''t2'']"
  by (simp add: ann_bob_events_def init_def join_def Let_def)

lemma run_append: "run (es @ es') s = run es' (run es s)"
  by (induction es arbitrary: s) simp_all

lemma bonjour_history:
  "messageHistory (run bonjour_events init) ''r1'' =
     Some [joinMessage ''Ann'' ''t1'', joinMessage ''Bob'' ''t2'',
           bonjour_translated, bonjour_original]"
  by (simp add: bonjour_events_def run_append chatMessage_history ann_bob_rooms ann_bob_history
      ann_def bob_def deliver_one_def messageToSend_def translateText_def to_english_def Let_def
      bonjour_translated_def bonjour_original_def)

lemma ann_bob_state:
  "map_of (rooms (run ann_bob_events init)) ''r1'' = Some [(''a'', ann), (''b'', bob)]"
  by (simp add: ann_bob_rooms)

lemma bob_in_room: "map_of [(''a'', ann), (''b'', bob)] ''b'' = Some bob"
  by simp

lemma ann_in_room: "map_of [(''a'', ann), (''b'', bob)] ''a'' = Some ann"
  by simp

lemma ann_alone_rooms: "rooms (run ann_alone_events init) = [(''r1'', [(''a'', ann)])]"
  by (simp add: ann_alone_events_def init_def join_def Let_def ann_def)

lemma trio_rooms:
  "map_of (rooms (run trio_events init)) ''r1'' = Some [(''a'', ann), (''d'', dee), (''b'', bob)]"
  by (simp add: trio_events_def init_def join_def Let_def ann_def bob_def dee_def)

lemma trio_history:
  "messageHistory (run trio_events init) ''r1'' =
     Some [joinMessage ''Ann'' ''t0'', joinMessage ''Dee'' ''t1'', joinMessage ''Bob'' ''t2'']"
  by (simp add: trio_events_def init_def join_def Let_def)

lemma bob_in_trio: "map_of [(''a'', ann), (''d'', dee), (''b'', bob)] ''b'' = Some bob"
  by simp

lemma ann_variant:
  "messageToSend to_english ''t3'' bob ''bonjour'' ''fr'' ''a'' ann = Inr bonjour_translated"
  by (simp add: messageToSend_def translateText_def to_english_def ann_def bob_def
      bonjour_translated_def)

lemma dee_variant:
  "messageToSend to_english ''t3'' bob ''bonjour'' ''fr'' ''d'' dee =
     Inl ''Translation service failed''"
  by (simp add: messageToSend_def translateText_def to_english_def dee_def bob_def)

lemma bob_variant:
  "messageToSend to_english ''t3'' bob ''bonjour'' ''fr'' ''b'' bob = Inr bonjour_original"
  by (simp add: messageToSend_def bob_def bonjour_original_def)

section \<open>History replay on join\<close>

text \<open>
  C4. A join into a room that has a history replays it to the joiner before the join
  notice is broadcast: a joiner of role user gets the records whose type is neither
  system nor private, in the order of the log; a joiner of role agent or supervisor
  gets the whole log.
\<close>

theorem join_replay_by_role:
  assumes "room \<noteq> []" and "username \<noteq> []" and "language \<noteq> []"
    and "messageHistory s room = Some h"
  shows "snd (join now socket_id room username language ''user'' s) =
           [SocketEmit socket_id
              (MessageHistoryEv
                 (filter (\<lambda>msg. m_type msg \<noteq> ''system'' \<and> m_type msg \<noteq> ''private'') h)),
            IoToEmit room (MessageEv (joinMessage username now))] \<and>
         snd (join now socket_id room username language ''agent'' s) =
           [SocketEmit socket_id (MessageHistoryEv h),
            IoToEmit room (MessageEv (joinMessage username now))] \<and>
         snd (join now socket_id room username language ''supervisor'' s) =
           [SocketEmit socket_id (MessageHistoryEv h),
            IoToEmit room (MessageEv (joinMessage username now))]"
  using assms by (simp add: join_def filteredHistory_def Let_def)

theorem join_replay_by_role_witness:
  "messageHistory (run bonjour_events init) ''r1'' =
     Some [joinMessage ''Ann'' ''t1'', joinMessage ''Bob'' ''t2'',
           bonjour_translated, bonjour_original] \<and>
   snd (join ''t4'' ''c'' ''r1'' ''Cy'' ''es'' ''user'' (run bonjour_events init)) =
     [SocketEmit ''c'' (MessageHistoryEv [bonjour_translated, bonjour_original]),
      IoToEmit ''r1'' (MessageEv (joinMessage ''Cy'' ''t4''))] \<and>
   snd (join ''t4'' ''c'' ''r1'' ''Cy'' ''es'' ''supervisor'' (run bonjour_events init)) =
     [SocketEmit ''c''
        (MessageHistoryEv
           [joinMessage ''Ann'' ''t1'', joinMessage ''Bob'' ''t2'',
            bonjour_translated, bonjour_original]),
      IoToEmit ''r1'' (MessageEv (joinMessage ''Cy'' ''t4''))]"
proof -
  have v: "''r1'' \<noteq> []" "''Cy'' \<noteq> []" "''es'' \<noteq> []" by simp_all
  from join_replay_by_role [OF v bonjour_history, of "''t4''" "''c''"] bonjour_history
  show ?thesis
    by (simp add: joinMessage_def bonjour_translated_def bonjour_original_def)
qed

text \<open>
  C9. The filter of the replay tests the role against the one string user. A join with
  any other role, recognised or not, replays the stored log as it is, system and
  private records included; a replay goes to the joining socket only and is never
  anything but the stored log.
\<close>

theorem join_replay_other_roles:
  assumes "role \<noteq> ''user''"
  shows "(room \<noteq> [] \<and> username \<noteq> [] \<and> language \<noteq> [] \<and> role \<noteq> [] \<and>
          messageHistory s room = Some h \<longrightarrow>
            snd (join now socket_id room username language role s) =
              [SocketEmit socket_id (MessageHistoryEv h),
               IoToEmit room (MessageEv (joinMessage username now))]) \<and>
         (\<forall>t l. SocketEmit t (MessageHistoryEv l)
                  \<in> set (snd (join now socket_id room username language role s)) \<longrightarrow>
                t = socket_id \<and> messageHistory s room = Some l) \<and>
         (\<forall>t l. IoToEmit t (MessageHistoryEv l)
                  \<notin> set (snd (join now socket_id room username language role s)))"
  using assms by (auto simp add: join_def filteredHistory_def Let_def split: option.splits)

theorem join_replay_other_roles_witness:
  "''auditor'' \<noteq> ''user'' \<and>
   snd (join ''t4'' ''c'' ''r1'' ''Cy'' ''es'' ''auditor'' (run bonjour_events init)) =
     [SocketEmit ''c''
        (MessageHistoryEv
           [joinMessage ''Ann'' ''t1'', joinMessage ''Bob'' ''t2'',
            bonjour_translated, bonjour_original]),
      IoToEmit ''r1'' (MessageEv (joinMessage ''Cy'' ''t4''))]"
proof -
  have r: "''auditor'' \<noteq> ''user''" by simp
  note first = join_replay_other_roles [OF r, THEN conjunct1, rule_format]
  have v: "''r1'' \<noteq> [] \<and> ''Cy'' \<noteq> [] \<and> ''es'' \<noteq> [] \<and> ''auditor'' \<noteq> [] \<and>
           messageHistory (run bonjour_events init) ''r1'' =
             Some [joinMessage ''Ann'' ''t1'', joinMessage ''Bob'' ''t2'',
                   bonjour_translated, bonjour_original]"
    using bonjour_history by simp
  from first [OF v] r show ?thesis by blast
qed

section \<open>Membership of a connection\<close>

text \<open>
  C3. The join handler adds the connection to the room it names and leaves the other
  rooms alone, so a connection that joins r1 and then r2 is a participant of both. The
  disconnect handler stops at the first room that holds the connection: after the
  disconnect the connection is still a participant of r2.
\<close>

theorem join_two_rooms_membership:
  "rooms (run two_rooms_events init) = [(''r1'', [(''c'', cy)]), (''r2'', [(''c'', cy)])] \<and>
   rooms (run (two_rooms_events @ [Disconnect ''c'']) init) = [(''r2'', [(''c'', cy)])]"
  by (simp add: two_rooms_events_def cy_def init_def join_def disconnect_def Let_def)

section \<open>Suggestion fan-out\<close>

text \<open>
  C7. When the sender of a chat message has role user, the suggestion gateway is called
  with the message; when the call succeeds, the batch is pushed to the participants of
  the room whose role is agent, one push each in the order of the room, and to nobody
  else. When the sender has any other role the gateway is not called and no batch is
  pushed.
\<close>

theorem suggestions_to_agents_only:
  assumes "room \<noteq> []" and "message \<noteq> []" and "language \<noteq> []"
    and "map_of (rooms s) room = Some roomUsers"
    and "map_of roomUsers socket_id = Some sender"
  shows "(u_role sender = ''user'' \<longrightarrow>
            AnalyzeCall message
              \<in> set (snd (chatMessage genAI axios now socket_id room message language s)) \<and>
            (\<forall>suggestions. analyzeMessage genAI message = Inr suggestions \<longrightarrow>
               snd (chatMessage genAI axios now socket_id room message language s) =
                 AnalyzeCall message #
                 map (\<lambda>(userId, user). IoToEmit userId (SuggestionsEv suggestions))
                   (filter (\<lambda>(userId, user). u_role user = ''agent'') roomUsers) @
                 snd (deliver axios now sender room message language roomUsers (messageHistory s)) \<and>
               (\<forall>t p. IoToEmit t (SuggestionsEv p)
                        \<in> set (snd (chatMessage genAI axios now socket_id room message language s))
                      \<longleftrightarrow> p = suggestions \<and>
                          (\<exists>user. (t, user) \<in> set roomUsers \<and> u_role user = ''agent'')) \<and>
               (\<forall>t p. SocketEmit t (SuggestionsEv p)
                        \<notin> set (snd (chatMessage genAI axios now socket_id room message language s))))) \<and>
         (u_role sender \<noteq> ''user'' \<longrightarrow>
            (\<forall>text. AnalyzeCall text
                    \<notin> set (snd (chatMessage genAI axios now socket_id room message language s))) \<and>
            (\<forall>t p. IoToEmit t (SuggestionsEv p)
                     \<notin> set (snd (chatMessage genAI axios now socket_id room message language s)) \<and>
                   SocketEmit t (SuggestionsEv p)
                     \<notin> set (snd (chatMessage genAI axios now socket_id room message language s))))"
proof -
  let ?fx = "snd (chatMessage genAI axios now socket_id room message language s)"
  let ?dl = "snd (deliver axios now sender room message language roomUsers (messageHistory s))"
  have fx: "?fx = suggest genAI socket_id sender message roomUsers @ ?dl"
    by (rule chatMessage_effects[OF assms])
  have other: "(\<forall>text. AnalyzeCall text \<notin> set ?fx) \<and>
      (\<forall>t p. IoToEmit t (SuggestionsEv p) \<notin> set ?fx \<and> SocketEmit t (SuggestionsEv p) \<notin> set ?fx)"
    if "u_role sender \<noteq> ''user''"
    using that by (simp add: fx suggest_def deliver_only_delivers)
  have call: "AnalyzeCall message \<in> set ?fx" if "u_role sender = ''user''"
    using that by (simp add: fx suggest_def)
  have ok: "?fx = AnalyzeCall message #
                 map (\<lambda>(userId, user). IoToEmit userId (SuggestionsEv suggestions))
                   (filter (\<lambda>(userId, user). u_role user = ''agent'') roomUsers) @ ?dl \<and>
            (\<forall>t p. IoToEmit t (SuggestionsEv p) \<in> set ?fx
                      \<longleftrightarrow> p = suggestions \<and>
                          (\<exists>user. (t, user) \<in> set roomUsers \<and> u_role user = ''agent'')) \<and>
            (\<forall>t p. SocketEmit t (SuggestionsEv p) \<notin> set ?fx)"
    if u: "u_role sender = ''user''" and a: "analyzeMessage genAI message = Inr suggestions"
    for suggestions
  proof -
    have eq: "?fx = AnalyzeCall message #
                 map (\<lambda>(userId, user). IoToEmit userId (SuggestionsEv suggestions))
                   (filter (\<lambda>(userId, user). u_role user = ''agent'') roomUsers) @ ?dl"
      by (simp add: fx suggest_def u a emit_suggestions_eq)
    have "\<forall>t p. IoToEmit t (SuggestionsEv p) \<in> set ?fx
                      \<longleftrightarrow> p = suggestions \<and>
                          (\<exists>user. (t, user) \<in> set roomUsers \<and> u_role user = ''agent'')"
      unfolding eq by (auto simp: deliver_only_delivers)
    moreover have "\<forall>t p. SocketEmit t (SuggestionsEv p) \<notin> set ?fx"
      unfolding eq by (auto simp: deliver_only_delivers)
    ultimately show ?thesis using eq by blast
  qed
  from other call ok show ?thesis by blast
qed

theorem suggestions_to_agents_only_witness:
  "u_role bob = ''user'' \<and> u_role ann = ''agent'' \<and>
   analyzeMessage greet ''bonjour'' = Inr [''Greet the customer''] \<and>
   AnalyzeCall ''bonjour''
     \<in> set (snd (chatMessage greet to_english ''t3'' ''b'' ''r1'' ''bonjour'' ''fr''
                   (run ann_bob_events init))) \<and>
   IoToEmit ''a'' (SuggestionsEv [''Greet the customer''])
     \<in> set (snd (chatMessage greet to_english ''t3'' ''b'' ''r1'' ''bonjour'' ''fr''
                   (run ann_bob_events init))) \<and>
   IoToEmit ''b'' (SuggestionsEv [''Greet the customer''])
     \<notin> set (snd (chatMessage greet to_english ''t3'' ''b'' ''r1'' ''bonjour'' ''fr''
                   (run ann_bob_events init))) \<and>
   AnalyzeCall ''hello''
     \<notin> set (snd (chatMessage greet to_english ''t3'' ''a'' ''r1'' ''hello'' ''en''
                   (run ann_bob_events init)))"
proof -
  have v: "''r1'' \<noteq> []" "''bonjour'' \<noteq> []" "''fr'' \<noteq> []" "''hello'' \<noteq> []" "''en'' \<noteq> []"
    by simp_all
  have u: "u_role bob = ''user''" and g: "u_role ann = ''agent''" and n: "u_role ann \<noteq> ''user''"
    by (simp_all add: bob_def ann_def)
  have a: "analyzeMessage greet ''bonjour'' = Inr [''Greet the customer'']"
    by (simp add: analyzeMessage_def greet_def)
  note user = suggestions_to_agents_only [OF v(1) v(2) v(3) ann_bob_state bob_in_room,
      of greet to_english "''t3''", THEN conjunct1, rule_format, OF u]
  note pushes = user [THEN conjunct2, rule_format, OF a, THEN conjunct2, THEN conjunct1,
      rule_format]
  note agent = suggestions_to_agents_only [OF v(1) v(4) v(5) ann_bob_state ann_in_room,
      of greet to_english "''t3''", THEN conjunct2, rule_format, OF n, THEN conjunct1,
      rule_format]
  have "IoToEmit ''a'' (SuggestionsEv [''Greet the customer''])
     \<in> set (snd (chatMessage greet to_english ''t3'' ''b'' ''r1'' ''bonjour'' ''fr''
                   (run ann_bob_events init)))"
    unfolding pushes using g by auto
  moreover have "IoToEmit ''b'' (SuggestionsEv [''Greet the customer''])
     \<notin> set (snd (chatMessage greet to_english ''t3'' ''b'' ''r1'' ''bonjour'' ''fr''
                   (run ann_bob_events init)))"
    unfolding pushes using u by auto
  ultimately show ?thesis using u g a user [THEN conjunct1] agent by blast
qed
section \<open>Disconnect\<close>




text \<open>
  What holds of the destruction of rooms. In every state reached from the empty relay by
  join, chatMessage and disconnect events, every room of the registry has a participant.
  When a disconnect empties the first room of the registry that holds the connection,
  the room is gone from the registry and its history from the history store; the next
  join of that room id, whatever happens in between to other rooms, replays no history:
  it emits the join notice alone, or the error for invalid parameters.
\<close>

lemma no_empty_room:
  "(\<forall>(room, users) \<in> set (rooms (run es init)). users \<noteq> []) \<and>
   (\<forall>pre room users post socket_id.
      rooms (run es init) = pre @ (room, users) # post \<and>
      (\<forall>(r, us) \<in> set pre. map_of us socket_id = None) \<and>
      map_of users socket_id \<noteq> None \<and>
      AList.delete socket_id users = [] \<longrightarrow>
        map_of (rooms (fst (disconnect socket_id (run es init)))) room = None \<and>
        messageHistory (fst (disconnect socket_id (run es init))) room = None \<and>
        (\<forall>es'. (\<forall>e \<in> set es'. \<not> joins room e) \<longrightarrow>
           (\<forall>now sid username language role.
              snd (join now sid room username language role
                     (run es' (fst (disconnect socket_id (run es init))))) =
                (if room = [] \<or> username = [] \<or> language = [] \<or> role = []
                 then [SocketEmit sid (ErrorEv ''Invalid join parameters'')]
                 else [IoToEmit room (MessageEv (joinMessage username now))]))))"
proof (intro conjI allI impI; (elim conjE)?)
  show "\<forall>(room, users) \<in> set (rooms (run es init)). users \<noteq> []"
    using run_init_inv[of es] by (auto simp: relay_inv_def)
next
  fix pre room users post socket_id
  assume a: "rooms (run es init) = pre @ (room, users) # post"
    and b: "\<forall>(r, us) \<in> set pre. map_of us socket_id = None"
    and c: "map_of users socket_id \<noteq> None"
    and d: "AList.delete socket_id users = []"
  let ?s' = "fst (disconnect socket_id (run es init))"
  have eq: "?s' = \<lparr>rooms = AList.delete room (rooms (run es init)),
                   messageHistory = (messageHistory (run es init))(room := None)\<rparr>"
    using disconnect_found[OF a b c] d by simp
  show "map_of (rooms ?s') room = None" unfolding eq by (simp add: AList.delete_conv')
  show h: "messageHistory ?s' room = None" unfolding eq by simp
  fix es' now sid username language role
  assume "\<forall>e \<in> set es'. \<not> joins room e"
  from run_history_None[OF h this]
  show "snd (join now sid room username language role (run es' ?s')) =
          (if room = [] \<or> username = [] \<or> language = [] \<or> role = []
           then [SocketEmit sid (ErrorEv ''Invalid join parameters'')]
           else [IoToEmit room (MessageEv (joinMessage username now))])"
    by (rule join_no_history)
qed

lemma no_empty_room_example:
  "rooms (run ann_alone_events init) = [] @ (''r1'', [(''a'', ann)]) # [] \<and>
   map_of [(''a'', ann)] ''a'' \<noteq> None \<and>
   AList.delete ''a'' [(''a'', ann)] = [] \<and>
   map_of (rooms (fst (disconnect ''a'' (run ann_alone_events init)))) ''r1'' = None \<and>
   messageHistory (fst (disconnect ''a'' (run ann_alone_events init))) ''r1'' = None \<and>
   snd (join ''t3'' ''b'' ''r1'' ''Bob'' ''fr'' ''user''
          (run [Join ''t2'' ''c'' ''r2'' ''Cy'' ''en'' ''user'']
             (fst (disconnect ''a'' (run ann_alone_events init))))) =
     [IoToEmit ''r1'' (MessageEv (joinMessage ''Bob'' ''t3''))]"
proof -
  have hyp: "rooms (run ann_alone_events init) = [] @ (''r1'', [(''a'', ann)]) # [] \<and>
      (\<forall>(r, us) \<in> set []. map_of us ''a'' = None) \<and>
      map_of [(''a'', ann)] ''a'' \<noteq> None \<and>
      AList.delete ''a'' [(''a'', ann)] = []"
    by (simp add: ann_alone_rooms)
  note gone = no_empty_room [of ann_alone_events, THEN conjunct2, rule_format, OF hyp]
  have other: "\<forall>e \<in> set [Join ''t2'' ''c'' ''r2'' ''Cy'' ''en'' ''user'']. \<not> joins ''r1'' e"
    by simp
  note rejoin = gone [THEN conjunct2, THEN conjunct2, THEN spec, THEN mp, OF other,
      rule_format]
  have "snd (join ''t3'' ''b'' ''r1'' ''Bob'' ''fr'' ''user''
          (run [Join ''t2'' ''c'' ''r2'' ''Cy'' ''en'' ''user'']
             (fst (disconnect ''a'' (run ann_alone_events init))))) =
     [IoToEmit ''r1'' (MessageEv (joinMessage ''Bob'' ''t3''))]"
    unfolding rejoin by simp
  with hyp gone [THEN conjunct1] gone [THEN conjunct2, THEN conjunct1]
  show ?thesis by blast
qed

text \<open>
  C2. A room whose last participant disconnects is not always destroyed. The connection
  c is a participant of r1 and of r2 and the only participant of each. Its disconnect
  empties r1, the first room that holds it, and stops there: r2 stays in the registry
  with c as its participant, the history of r2 stays in the history store, and the next
  join of r2 replays that history to the joiner.
\<close>

theorem last_participant_room_survives:
  "map_of (rooms (run two_rooms_events init)) ''r2'' = Some [(''c'', cy)] \<and>
   map_of (rooms (fst (disconnect ''c'' (run two_rooms_events init)))) ''r1'' = None \<and>
   map_of (rooms (fst (disconnect ''c'' (run two_rooms_events init)))) ''r2'' =
     Some [(''c'', cy)] \<and>
   messageHistory (fst (disconnect ''c'' (run two_rooms_events init))) ''r2'' =
     Some [joinMessage ''Cy'' ''t2''] \<and>
   snd (join ''t3'' ''e'' ''r2'' ''Eve'' ''en'' ''supervisor''
          (fst (disconnect ''c'' (run two_rooms_events init)))) =
     [SocketEmit ''e'' (MessageHistoryEv [joinMessage ''Cy'' ''t2'']),
      IoToEmit ''r2'' (MessageEv (joinMessage ''Eve'' ''t3''))]"
  by (simp add: two_rooms_events_def cy_def init_def join_def disconnect_def Let_def
      filteredHistory_def)

section \<open>Delivery fan-out\<close>

text \<open>
  C5. In the fan-out of a chat message, a recipient whose registered language equals the
  language declared with the message is sent exactly the record with the original text
  and the translated flag false. A recipient of another language is sent exactly the
  record whose text is the output of the translation gateway for the message and the
  recipient's language, with the flag true (and no record when the gateway fails).
\<close>

theorem delivered_text_and_flag:
  assumes "room \<noteq> []" and "message \<noteq> []" and "language \<noteq> []"
    and "map_of (rooms (run es init)) room = Some roomUsers"
    and "map_of roomUsers socket_id = Some sender"
    and "(userId, user) \<in> set roomUsers"
  shows "(u_language user = language \<longrightarrow>
           (\<forall>m. IoToEmit userId (MessageEv m)
                   \<in> set (snd (chatMessage genAI axios now socket_id room message language
                                  (run es init)))
                 \<longleftrightarrow> m = \<lparr>m_username = u_username sender, m_text = message,
                          m_originalText = Some message, m_isTranslated = Some False,
                          m_timestamp = now, m_type = ''public'',
                          m_role = Some (u_role sender)\<rparr>)) \<and>
         (u_language user \<noteq> language \<longrightarrow>
           (\<forall>m. IoToEmit userId (MessageEv m)
                   \<in> set (snd (chatMessage genAI axios now socket_id room message language
                                  (run es init)))
                 \<longleftrightarrow> (\<exists>t. translateText (axios userId) message (u_language user) = Inr t \<and>
                          m = \<lparr>m_username = u_username sender, m_text = t,
                               m_originalText = Some message, m_isTranslated = Some True,
                               m_timestamp = now, m_type = ''public'',
                               m_role = Some (u_role sender)\<rparr>)))"
  unfolding fanout_message_iff[OF assms]
  by (auto simp: messageToSend_def split: sum.splits)

theorem delivered_text_and_flag_witness:
  "u_language ann \<noteq> ''fr'' \<and>
   translateText (to_english ''a'') ''bonjour'' (u_language ann) = Inr ''hello'' \<and>
   IoToEmit ''a'' (MessageEv bonjour_translated)
     \<in> set (snd (chatMessage greet to_english ''t3'' ''b'' ''r1'' ''bonjour'' ''fr''
                   (run trio_events init))) \<and>
   u_language bob = ''fr'' \<and>
   IoToEmit ''b'' (MessageEv bonjour_original)
     \<in> set (snd (chatMessage greet to_english ''t3'' ''b'' ''r1'' ''bonjour'' ''fr''
                   (run trio_events init)))"
proof -
  have v: "''r1'' \<noteq> []" "''bonjour'' \<noteq> []" "''fr'' \<noteq> []" by simp_all
  have a: "(''a'', ann) \<in> set [(''a'', ann), (''d'', dee), (''b'', bob)]"
    and b: "(''b'', bob) \<in> set [(''a'', ann), (''d'', dee), (''b'', bob)]" by simp_all
  have la: "u_language ann \<noteq> ''fr''" and lb: "u_language bob = ''fr''"
    by (simp_all add: ann_def bob_def)
  have tr: "translateText (to_english ''a'') ''bonjour'' (u_language ann) = Inr ''hello''"
    by (simp add: translateText_def to_english_def ann_def)
  note for_ann = delivered_text_and_flag [OF v trio_rooms bob_in_trio a,
      where genAI = greet and axios = to_english and now = "''t3''",
      THEN conjunct2, rule_format, OF la]
  note for_bob = delivered_text_and_flag [OF v trio_rooms bob_in_trio b,
      where genAI = greet and axios = to_english and now = "''t3''",
      THEN conjunct1, rule_format, OF lb]
  have "IoToEmit ''a'' (MessageEv bonjour_translated)
     \<in> set (snd (chatMessage greet to_english ''t3'' ''b'' ''r1'' ''bonjour'' ''fr''
                   (run trio_events init)))"
    unfolding for_ann using tr by (simp add: bonjour_translated_def bob_def)
  moreover have "IoToEmit ''b'' (MessageEv bonjour_original)
     \<in> set (snd (chatMessage greet to_english ''t3'' ''b'' ''r1'' ''bonjour'' ''fr''
                   (run trio_events init)))"
    unfolding for_bob by (simp add: bonjour_original_def bob_def)
  ultimately show ?thesis using la lb tr by blast
qed

text \<open>
  C6. Each recipient's part of the fan-out depends on that recipient's own record
  only, whatever happens to the others: when building the record succeeds the message
  is emitted to the recipient and no failure signal is; when it fails, the failure
  signal is emitted to that recipient and no message is. A failure signal is addressed
  only to a participant whose own record failed, and never to the sender's socket as
  such. In the example Dee's translation fails, and Bob, who comes after Dee in the
  room, still gets the message.
\<close>

theorem delivery_failure_isolated:
  assumes "room \<noteq> []" and "message \<noteq> []" and "language \<noteq> []"
    and "map_of (rooms (run es init)) room = Some roomUsers"
    and "map_of roomUsers socket_id = Some sender"
    and "(userId, user) \<in> set roomUsers"
  shows "(case messageToSend axios now sender message language userId user of
            Inr m \<Rightarrow>
              IoToEmit userId (MessageEv m)
                \<in> set (snd (chatMessage genAI axios now socket_id room message language
                               (run es init))) \<and>
              IoToEmit userId (ErrorEv ''Message delivery failed'')
                \<notin> set (snd (chatMessage genAI axios now socket_id room message language
                               (run es init)))
          | Inl e \<Rightarrow>
              IoToEmit userId (ErrorEv ''Message delivery failed'')
                \<in> set (snd (chatMessage genAI axios now socket_id room message language
                               (run es init))) \<and>
              (\<forall>m. IoToEmit userId (MessageEv m)
                      \<notin> set (snd (chatMessage genAI axios now socket_id room message language
                                     (run es init))))) \<and>
         (\<forall>t. IoToEmit t (ErrorEv ''Message delivery failed'')
                 \<in> set (snd (chatMessage genAI axios now socket_id room message language
                                (run es init))) \<longrightarrow>
               (\<exists>u e. (t, u) \<in> set roomUsers \<and>
                      messageToSend axios now sender message language t u = Inl e)) \<and>
         (\<forall>t. SocketEmit t (ErrorEv ''Message delivery failed'')
                 \<notin> set (snd (chatMessage genAI axios now socket_id room message language
                                (run es init))))"
proof (intro conjI allI impI)
  show "case messageToSend axios now sender message language userId user of
            Inr m \<Rightarrow>
              IoToEmit userId (MessageEv m)
                \<in> set (snd (chatMessage genAI axios now socket_id room message language
                               (run es init))) \<and>
              IoToEmit userId (ErrorEv ''Message delivery failed'')
                \<notin> set (snd (chatMessage genAI axios now socket_id room message language
                               (run es init)))
          | Inl e \<Rightarrow>
              IoToEmit userId (ErrorEv ''Message delivery failed'')
                \<in> set (snd (chatMessage genAI axios now socket_id room message language
                               (run es init))) \<and>
              (\<forall>m. IoToEmit userId (MessageEv m)
                      \<notin> set (snd (chatMessage genAI axios now socket_id room message language
                                     (run es init))))"
    unfolding fanout_message_iff[OF assms] fanout_failed_iff[OF assms]
    by (simp split: sum.splits)
next
  fix t
  assume "IoToEmit t (ErrorEv ''Message delivery failed'')
            \<in> set (snd (chatMessage genAI axios now socket_id room message language (run es init)))"
  then have in_loop: "IoToEmit t (ErrorEv ''Message delivery failed'')
            \<in> set (snd (deliver axios now sender room message language roomUsers
                           (messageHistory (run es init))))"
    unfolding chatMessage_effects[OF assms(1-5)] by (simp add: suggest_no_delivery)
  from run_room_facts(2)[OF assms(4)] obtain h where
    h: "messageHistory (run es init) room = Some h" by blast
  from in_loop show "\<exists>u e. (t, u) \<in> set roomUsers \<and>
                      messageToSend axios now sender message language t u = Inl e"
    unfolding deliver_failed_iff[of "messageHistory (run es init)" room h, OF h] .
next
  fix t
  show "SocketEmit t (ErrorEv ''Message delivery failed'')
          \<notin> set (snd (chatMessage genAI axios now socket_id room message language (run es init)))"
    unfolding chatMessage_effects[OF assms(1-5)]
    by (simp add: suggest_no_delivery deliver_only_delivers)
qed

theorem delivery_failure_isolated_witness:
  "messageToSend to_english ''t3'' bob ''bonjour'' ''fr'' ''d'' dee =
     Inl ''Translation service failed'' \<and>
   IoToEmit ''d'' (ErrorEv ''Message delivery failed'')
     \<in> set (snd (chatMessage greet to_english ''t3'' ''b'' ''r1'' ''bonjour'' ''fr''
                   (run trio_events init))) \<and>
   messageToSend to_english ''t3'' bob ''bonjour'' ''fr'' ''b'' bob = Inr bonjour_original \<and>
   IoToEmit ''b'' (MessageEv bonjour_original)
     \<in> set (snd (chatMessage greet to_english ''t3'' ''b'' ''r1'' ''bonjour'' ''fr''
                   (run trio_events init))) \<and>
   IoToEmit ''b'' (ErrorEv ''Message delivery failed'')
     \<notin> set (snd (chatMessage greet to_english ''t3'' ''b'' ''r1'' ''bonjour'' ''fr''
                   (run trio_events init)))"
proof -
  have v: "''r1'' \<noteq> []" "''bonjour'' \<noteq> []" "''fr'' \<noteq> []" by simp_all
  have d: "(''d'', dee) \<in> set [(''a'', ann), (''d'', dee), (''b'', bob)]"
    and b: "(''b'', bob) \<in> set [(''a'', ann), (''d'', dee), (''b'', bob)]" by simp_all
  note for_dee = delivery_failure_isolated [OF v trio_rooms bob_in_trio d,
      where genAI = greet and axios = to_english and now = "''t3''",
      THEN conjunct1, unfolded dee_variant sum.case]
  note for_bob = delivery_failure_isolated [OF v trio_rooms bob_in_trio b,
      where genAI = greet and axios = to_english and now = "''t3''",
      THEN conjunct1, unfolded bob_variant sum.case]
  from for_dee for_bob dee_variant bob_variant show ?thesis by blast
qed

text \<open>
  C8. When no recipient fails, the chat message appends to the history of the room
  exactly the records of the recipients, in the order of the room: as many records as
  the room has participants, all with the one timestamp read for the message, and one
  of them is the copy emitted to the sender.
\<close>

theorem one_record_per_recipient:
  assumes "room \<noteq> []" and "message \<noteq> []" and "language \<noteq> []"
    and "map_of (rooms (run es init)) room = Some roomUsers"
    and "map_of roomUsers socket_id = Some sender"
    and "\<forall>(userId, user) \<in> set roomUsers.
           \<exists>m. messageToSend axios now sender message language userId user = Inr m"
  shows "\<exists>h recs.
           messageHistory (run es init) room = Some h \<and>
           messageHistory (fst (chatMessage genAI axios now socket_id room message language
                                  (run es init))) room = Some (h @ recs) \<and>
           length recs = length roomUsers \<and>
           map Inr recs =
             map (\<lambda>(userId, user). messageToSend axios now sender message language userId user)
               roomUsers \<and>
           (\<forall>m \<in> set recs. m_timestamp m = now) \<and>
           (\<exists>m \<in> set recs.
              IoToEmit socket_id (MessageEv m)
                \<in> set (snd (chatMessage genAI axios now socket_id room message language
                               (run es init))))"
proof -
  let ?recs = "concat (map (\<lambda>(userId, user).
                   case messageToSend axios now sender message language userId user of
                     Inl e \<Rightarrow> [] | Inr m \<Rightarrow> [m]) roomUsers)"
  from run_room_facts(2)[OF assms(4)] obtain h where
    h: "messageHistory (run es init) room = Some h" by blast
  have after: "messageHistory (fst (chatMessage genAI axios now socket_id room message language
                                      (run es init))) room = Some (h @ ?recs)"
    by (rule fanout_history[OF assms(1-5) h])
  have m: "map Inr ?recs =
             map (\<lambda>(userId, user). messageToSend axios now sender message language userId user)
               roomUsers"
    by (rule records_all_success[OF assms(6)])
  have "length ?recs = length (map Inr ?recs :: (string + message) list)" by simp
  also have "\<dots> = length roomUsers" unfolding m by simp
  finally have l: "length ?recs = length roomUsers" .
  have ts: "\<forall>m \<in> set ?recs. m_timestamp m = now"
  proof
    fix m
    assume "m \<in> set ?recs"
    then obtain userId user where
      "messageToSend axios now sender message language userId user = Inr m"
      unfolding records_member_iff by blast
    then show "m_timestamp m = now" by (rule messageToSend_timestamp)
  qed
  have own: "(socket_id, sender) \<in> set roomUsers" using assms(5) by (rule map_of_SomeD)
  with assms(6) obtain m0 where
    m0: "messageToSend axios now sender message language socket_id sender = Inr m0" by blast
  have "m0 \<in> set ?recs" unfolding records_member_iff using own m0 by blast
  moreover have "IoToEmit socket_id (MessageEv m0)
                \<in> set (snd (chatMessage genAI axios now socket_id room message language
                               (run es init)))"
    unfolding fanout_message_iff[OF assms(1-5) own] by (rule m0)
  ultimately have "\<exists>m \<in> set ?recs.
              IoToEmit socket_id (MessageEv m)
                \<in> set (snd (chatMessage genAI axios now socket_id room message language
                               (run es init)))" by blast
  with h after l m ts show ?thesis by blast
qed

theorem one_record_per_recipient_witness:
  "messageToSend to_english ''t3'' bob ''bonjour'' ''fr'' ''a'' ann = Inr bonjour_translated \<and>
   messageToSend to_english ''t3'' bob ''bonjour'' ''fr'' ''b'' bob = Inr bonjour_original \<and>
   messageHistory (fst (chatMessage greet to_english ''t3'' ''b'' ''r1'' ''bonjour'' ''fr''
                          (run ann_bob_events init))) ''r1'' =
     Some [joinMessage ''Ann'' ''t1'', joinMessage ''Bob'' ''t2'',
           bonjour_translated, bonjour_original]"
proof -
  have v: "''r1'' \<noteq> []" "''bonjour'' \<noteq> []" "''fr'' \<noteq> []" by simp_all
  have ok: "\<forall>(userId, user) \<in> set [(''a'', ann), (''b'', bob)].
      \<exists>m. messageToSend to_english ''t3'' bob ''bonjour'' ''fr'' userId user = Inr m"
    by (simp add: ann_variant bob_variant)
  from one_record_per_recipient [OF v ann_bob_state bob_in_room ok, where genAI = greet]
  obtain h recs where
    h: "messageHistory (run ann_bob_events init) ''r1'' = Some h"
    and after: "messageHistory (fst (chatMessage greet to_english ''t3'' ''b'' ''r1'' ''bonjour''
                  ''fr'' (run ann_bob_events init))) ''r1'' = Some (h @ recs)"
    and recs: "map Inr recs =
                 map (\<lambda>(userId, user). messageToSend to_english ''t3'' bob ''bonjour'' ''fr''
                        userId user) [(''a'', ann), (''b'', bob)]"
    by blast
  from recs have "map Inr recs = [Inr bonjour_translated, Inr bonjour_original :: string + message]"
    by (simp add: ann_variant bob_variant)
  then have "recs = [bonjour_translated, bonjour_original]"
    by (auto simp: map_eq_Cons_conv)
  with h after ann_bob_history ann_variant bob_variant show ?thesis by simp
qed

text \<open>
  C10. The records appended to the history by a chat message are those of the
  recipients whose record was built, in the order of the room; a recipient whose
  translation failed contributes none. Their number is the number of recipients
  without failure, and a record is appended exactly when it is emitted to a recipient.
\<close>

theorem failed_recipient_not_recorded:
  assumes "room \<noteq> []" and "message \<noteq> []" and "language \<noteq> []"
    and "map_of (rooms (run es init)) room = Some roomUsers"
    and "map_of roomUsers socket_id = Some sender"
  shows "\<exists>h recs.
           messageHistory (run es init) room = Some h \<and>
           messageHistory (fst (chatMessage genAI axios now socket_id room message language
                                  (run es init))) room = Some (h @ recs) \<and>
           recs = concat (map (\<lambda>(userId, user).
                    case messageToSend axios now sender message language userId user of
                      Inl e \<Rightarrow> [] | Inr m \<Rightarrow> [m]) roomUsers) \<and>
           length recs =
             length (filter (\<lambda>(userId, user).
                       \<forall>e. messageToSend axios now sender message language userId user \<noteq> Inl e)
                     roomUsers) \<and>
           (\<forall>m. m \<in> set recs \<longleftrightarrow>
                 (\<exists>userId. IoToEmit userId (MessageEv m)
                    \<in> set (snd (chatMessage genAI axios now socket_id room message language
                                   (run es init)))))"
proof -
  let ?recs = "concat (map (\<lambda>(userId, user).
                   case messageToSend axios now sender message language userId user of
                     Inl e \<Rightarrow> [] | Inr m \<Rightarrow> [m]) roomUsers)"
  from run_room_facts(2)[OF assms(4)] obtain h where
    h: "messageHistory (run es init) room = Some h" by blast
  have after: "messageHistory (fst (chatMessage genAI axios now socket_id room message language
                                      (run es init))) room = Some (h @ ?recs)"
    by (rule fanout_history[OF assms(1-5) h])
  have len: "length ?recs =
             length (filter (\<lambda>(userId, user).
                       \<forall>e. messageToSend axios now sender message language userId user \<noteq> Inl e)
                     roomUsers)"
    by (rule records_length)
  have pushed: "m \<in> set ?recs \<longleftrightarrow>
                 (\<exists>userId. IoToEmit userId (MessageEv m)
                    \<in> set (snd (chatMessage genAI axios now socket_id room message language
                                   (run es init))))" for m
    unfolding records_member_iff chatMessage_effects[OF assms(1-5)]
    by (simp add: suggest_no_delivery
        deliver_message_iff[of "messageHistory (run es init)" room h, OF h])
  from h after len pushed show ?thesis by blast
qed

theorem failed_recipient_not_recorded_witness:
  "messageToSend to_english ''t3'' bob ''bonjour'' ''fr'' ''d'' dee =
     Inl ''Translation service failed'' \<and>
   messageHistory (fst (chatMessage greet to_english ''t3'' ''b'' ''r1'' ''bonjour'' ''fr''
                          (run trio_events init))) ''r1'' =
     Some [joinMessage ''Ann'' ''t0'', joinMessage ''Dee'' ''t1'', joinMessage ''Bob'' ''t2'',
           bonjour_translated, bonjour_original]"
proof -
  have v: "''r1'' \<noteq> []" "''bonjour'' \<noteq> []" "''fr'' \<noteq> []" by simp_all
  from failed_recipient_not_recorded [OF v trio_rooms bob_in_trio,
      where genAI = greet and axios = to_english and now = "''t3''"]
  obtain h recs where
    h: "messageHistory (run trio_events init) ''r1'' = Some h"
    and after: "messageHistory (fst (chatMessage greet to_english ''t3'' ''b'' ''r1'' ''bonjour''
                  ''fr'' (run trio_events init))) ''r1'' = Some (h @ recs)"
    and recs: "recs = concat (map (\<lambda>(userId, user).
                    case messageToSend to_english ''t3'' bob ''bonjour'' ''fr'' userId user of
                      Inl e \<Rightarrow> [] | Inr m \<Rightarrow> [m]) [(''a'', ann), (''d'', dee), (''b'', bob)])"
    by blast
  from recs have "recs = [bonjour_translated, bonjour_original]"
    by (simp add: ann_variant dee_variant bob_variant)
  with h after trio_history dee_variant show ?thesis by simp
qed

end
